theory Spec2Isabelle
  imports Main "HOL-Library.Log_Nat" "HOL-Library.Power_By_Squaring" "HOL-Library.Code_Target_Nat"
begin

section \<open>JavaScript numbers\<close>

text \<open>
  Every number of \<^verbatim>\<open>App.jsx\<close> is an ECMAScript Number: an IEEE 754 binary64 value.
  A finite value is kept as the rational it denotes; the two infinities and NaN are
  constructors of their own. The two zeros are one value \<open>Num 0\<close>: the program never
  divides by a zero it computed (the only divisor is the adjusted rate, and a zero there
  is the positive one) and never prints the sign of a zero.
\<close>

datatype jsnum = Num rat | PosInf | NegInf | NaN

text \<open>\<open>ilog2 x\<close> is the binary exponent of a positive rational: \<open>2 powi ilog2 x \<le> x < 2 powi (ilog2 x + 1)\<close>.\<close>

definition ilog2 :: "rat \<Rightarrow> int" where
  "ilog2 x = (if 1 \<le> x then bitlen \<lfloor>x\<rfloor> - 1 else - bitlen (\<lceil>1 / x\<rceil> - 1))"

definition round_half_even :: "rat \<Rightarrow> int" where
  "round_half_even x =
     (let f = \<lfloor>x\<rfloor>; r = x - of_int f
      in if r < 1 / 2 then f else if 1 / 2 < r then f + 1 else if even f then f else f + 1)"

text \<open>
  Rounding of a real result to binary64, round to nearest, ties to even: 53 significant
  bits, the exponent never below \<open>-1022\<close> (below it the values are subnormal, spaced
  \<open>2 powi -1074\<close> apart), and a result that rounds to \<open>2 powi 1024\<close> or more is an infinity.
\<close>

definition binary64 :: "rat \<Rightarrow> jsnum" where
  "binary64 x =
     (if x = 0 then Num 0
      else let e = max (ilog2 \<bar>x\<bar>) (- 1022);
               m = round_half_even (\<bar>x\<bar> / 2 powi (e - 52))
           in if 1023 < e \<or> (e = 1023 \<and> 2 ^ 53 \<le> m) then (if 0 < x then PosInf else NegInf)
              else Num (sgn x * (of_int m * 2 powi (e - 52))))"

definition isNaN :: "jsnum \<Rightarrow> bool" where
  "isNaN v = (v = NaN)"

text \<open>The relational operators \<^verbatim>\<open><=\<close> and \<^verbatim>\<open><\<close>: false whenever an operand is NaN.\<close>

fun js_le :: "jsnum \<Rightarrow> jsnum \<Rightarrow> bool" where
  "js_le NaN _ = False"
| "js_le _ NaN = False"
| "js_le (Num a) (Num b) = (a \<le> b)"
| "js_le NegInf _ = True"
| "js_le _ PosInf = True"
| "js_le PosInf _ = False"
| "js_le _ NegInf = False"

fun js_lt :: "jsnum \<Rightarrow> jsnum \<Rightarrow> bool" where
  "js_lt NaN _ = False"
| "js_lt _ NaN = False"
| "js_lt (Num a) (Num b) = (a < b)"
| "js_lt PosInf _ = False"
| "js_lt _ NegInf = False"
| "js_lt NegInf _ = True"
| "js_lt _ PosInf = True"

text \<open>The sign of a number that is not NaN, as \<open>-1\<close>, \<open>0\<close> or \<open>1\<close>.\<close>

fun js_sign :: "jsnum \<Rightarrow> int" where
  "js_sign (Num a) = (if a < 0 then - 1 else if a = 0 then 0 else 1)"
| "js_sign PosInf = 1"
| "js_sign NegInf = - 1"
| "js_sign NaN = 0"

definition signed_inf :: "int \<Rightarrow> jsnum" where
  "signed_inf s = (if s < 0 then NegInf else PosInf)"

text \<open>\<^verbatim>\<open>a * b\<close>: the exact product rounded; infinity times zero is NaN.\<close>

fun js_mul :: "jsnum \<Rightarrow> jsnum \<Rightarrow> jsnum" where
  "js_mul NaN _ = NaN"
| "js_mul _ NaN = NaN"
| "js_mul (Num a) (Num b) = binary64 (a * b)"
| "js_mul a b = (if js_sign a * js_sign b = 0 then NaN else signed_inf (js_sign a * js_sign b))"

text \<open>
  \<^verbatim>\<open>a / b\<close>: the exact quotient rounded; zero by zero and infinity by infinity are NaN,
  a nonzero number by zero is an infinity, a finite number by an infinity is zero.
\<close>

fun js_div :: "jsnum \<Rightarrow> jsnum \<Rightarrow> jsnum" where
  "js_div NaN _ = NaN"
| "js_div _ NaN = NaN"
| "js_div (Num a) (Num b) =
     (if b = 0 then (if a = 0 then NaN else signed_inf (js_sign (Num a))) else binary64 (a / b))"
| "js_div (Num a) _ = Num 0"
| "js_div a (Num b) = signed_inf (js_sign a * (if b < 0 then - 1 else 1))"
| "js_div _ _ = NaN"

text \<open>\<^verbatim>\<open>a - b\<close>: the exact difference rounded; an infinity minus itself is NaN.\<close>

fun js_sub :: "jsnum \<Rightarrow> jsnum \<Rightarrow> jsnum" where
  "js_sub NaN _ = NaN"
| "js_sub _ NaN = NaN"
| "js_sub (Num a) (Num b) = binary64 (a - b)"
| "js_sub (Num a) PosInf = NegInf"
| "js_sub (Num a) NegInf = PosInf"
| "js_sub PosInf PosInf = NaN"
| "js_sub NegInf NegInf = NaN"
| "js_sub a _ = a"

section \<open>Strings and numbers\<close>

definition is_digit :: "char \<Rightarrow> bool" where
  "is_digit c = (c \<in> set ''0123456789'')"

definition digit_val :: "char \<Rightarrow> nat" where
  "digit_val c = of_char c - 48"

definition digits_val :: "string \<Rightarrow> nat" where
  "digits_val ds = foldl (\<lambda>a c. 10 * a + digit_val c) 0 ds"

definition digit_char :: "nat \<Rightarrow> char" where
  "digit_char d = char_of (48 + d)"

text \<open>The decimal digits of a natural number, most significant first; \<open>0\<close> is \<open>''0''\<close>.\<close>

fun to_digits :: "nat \<Rightarrow> string" where
  "to_digits n = (if n < 10 then [digit_char n] else to_digits (n div 10) @ [digit_char (n mod 10)])"

declare to_digits.simps [simp del]

text \<open>White space that \<^verbatim>\<open>parseFloat\<close> and \<^verbatim>\<open>trim\<close> skip, among the characters below 128.\<close>

definition is_space :: "char \<Rightarrow> bool" where
  "is_space c = (of_char c \<in> {9, 10, 11, 12, 13, 32 :: nat})"

definition split_sign :: "string \<Rightarrow> bool \<times> string" where
  "split_sign t =
     (case t of
        [] \<Rightarrow> (False, t)
      | c # r \<Rightarrow> if c = CHR ''-'' then (True, r) else if c = CHR ''+'' then (False, r) else (False, t))"

text \<open>The exponent part \<^verbatim>\<open>e\<close>, sign, digits at the head of a string; \<open>0\<close> when there is none.\<close>

definition exponent_part :: "string \<Rightarrow> int" where
  "exponent_part r =
     (case r of
        [] \<Rightarrow> 0
      | c # r' \<Rightarrow>
          if c = CHR ''e'' \<or> c = CHR ''E'' then
            (let (neg, d) = split_sign r'; ds = takeWhile is_digit d
             in if ds = [] then 0 else if neg then - int (digits_val ds) else int (digits_val ds))
          else 0)"

text \<open>
  \<^verbatim>\<open>parseFloat(string)\<close>: skip leading white space, take the longest prefix that is a
  decimal literal (sign, \<^verbatim>\<open>Infinity\<close> or digits with an optional fraction and exponent),
  and round its value to binary64; NaN when no prefix is a literal.
\<close>

definition parseFloat :: "string \<Rightarrow> jsnum" where
  "parseFloat s =
     (let (neg, u) = split_sign (dropWhile is_space s)
      in if take 8 u = ''Infinity'' then (if neg then NegInf else PosInf)
         else
           let ip = takeWhile is_digit u;
               r1 = dropWhile is_digit u;
               (fp, r2) = (case r1 of
                             [] \<Rightarrow> ([], r1)
                           | c # r \<Rightarrow> if c = CHR ''.'' then (takeWhile is_digit r, dropWhile is_digit r)
                                      else ([], r1))
           in if ip = [] \<and> fp = [] then NaN
              else
                let mv = of_nat (digits_val (ip @ fp)) * 10 powi (exponent_part r2 - int (length fp))
                in binary64 (if neg then - mv else mv))"

text \<open>
  \<^verbatim>\<open>parseFloat(number)\<close> first converts the number to a string. \<^verbatim>\<open>Number::toString\<close>
  writes the shortest decimal that reads back as the same value (\<^verbatim>\<open>Infinity\<close> and
  \<^verbatim>\<open>NaN\<close> by name), so the result is the number itself.
\<close>

definition parseFloat_number :: "jsnum \<Rightarrow> jsnum" where
  "parseFloat_number v = v"

subsection \<open>Number to string\<close>

text \<open>
  \<^verbatim>\<open>Number::toString\<close> for a finite \<open>x \<ge> 10^21\<close>, the only range where
  \<^verbatim>\<open>toFixed\<close> calls it: integers \<open>s\<close>, \<open>k\<close>, \<open>n\<close> with \<open>10^(k-1) \<le> s < 10^k\<close>,
  \<open>s * 10^(n-k)\<close> rounding to \<open>x\<close> and \<open>k\<close> least (among several \<open>s\<close> the one nearest to
  \<open>x\<close>, the even one on a tie); the text is the first digit of \<open>s\<close>, a point and the other
  digits when \<open>k > 1\<close>, then \<^verbatim>\<open>e+\<close> and \<open>n - 1\<close>.
\<close>

definition sci_candidates :: "rat \<Rightarrow> nat \<Rightarrow> (nat \<times> nat) list" where
  "sci_candidates x k =
     (let d = length (to_digits (nat \<lfloor>x\<rfloor>))
      in concat (map (\<lambda>n. let lo = nat \<lfloor>x / 10 ^ (n - k)\<rfloor>
                           in filter (\<lambda>(s, n). 10 ^ (k - 1) \<le> s \<and> s < 10 ^ k \<and>
                                               binary64 (of_nat s * 10 ^ (n - k)) = Num x)
                                [(lo, n), (lo + 1, n)])
                 [d, d + 1]))"

definition sci_better :: "rat \<Rightarrow> nat \<Rightarrow> (nat \<times> nat) \<Rightarrow> (nat \<times> nat) \<Rightarrow> bool" where
  "sci_better x k c b =
     (let dc = \<bar>of_nat (fst c) * 10 ^ (snd c - k) - x\<bar>;
          db = \<bar>of_nat (fst b) * 10 ^ (snd b - k) - x\<bar>
      in dc < db \<or> (dc = db \<and> even (fst c) \<and> odd (fst b)))"

fun sci_best :: "rat \<Rightarrow> nat \<Rightarrow> (nat \<times> nat) \<Rightarrow> (nat \<times> nat) list \<Rightarrow> (nat \<times> nat)" where
  "sci_best x k b [] = b"
| "sci_best x k b (c # cs) = sci_best x k (if sci_better x k c b then c else b) cs"

text \<open>
  The search over \<open>k\<close>. Seventeen digits always identify a binary64 value, so for the
  numbers of the program the search ends with a candidate at some \<open>k \<le> 17\<close>; the case
  \<open>k = 17\<close> without one only makes the function total on other rationals.
\<close>

fun sci_search :: "rat \<Rightarrow> nat \<Rightarrow> nat \<Rightarrow> nat \<times> nat" where
  "sci_search x k 0 =
     (let d = length (to_digits (nat \<lfloor>x\<rfloor>)) in (nat (round (x / 10 ^ (d - k))), d))"
| "sci_search x k (Suc fuel) =
     (case sci_candidates x k of
        [] \<Rightarrow> sci_search x (Suc k) fuel
      | c # cs \<Rightarrow> sci_best x k c cs)"

definition number_to_string :: "rat \<Rightarrow> string" where
  "number_to_string x =
     (let (s, n) = sci_search x 1 16; ds = to_digits s
      in (if length ds = 1 then ds else hd ds # CHR ''.'' # tl ds) @ ''e+'' @ to_digits (n - 1))"

text \<open>
  \<^verbatim>\<open>Number.prototype.toFixed(f)\<close> for \<open>0 \<le> f \<le> 100\<close>: a value that is not finite prints
  by name; a magnitude of \<open>10^21\<close> or more prints as \<^verbatim>\<open>Number::toString\<close> does; any other
  is the integer \<open>n\<close> nearest to \<open>x * 10^f\<close> (the larger of two), padded with zeros to
  \<open>f + 1\<close> digits, with a point before the last \<open>f\<close>.
\<close>

definition toFixed :: "nat \<Rightarrow> jsnum \<Rightarrow> string" where
  "toFixed f v =
     (case v of
        NaN \<Rightarrow> ''NaN''
      | PosInf \<Rightarrow> ''Infinity''
      | NegInf \<Rightarrow> ''-Infinity''
      | Num x \<Rightarrow>
          (let s = (if x < 0 then ''-'' else ''''); a = \<bar>x\<bar>
           in if 10 ^ 21 \<le> a then s @ number_to_string a
              else
                let m = to_digits (nat (round (a * 10 ^ f)));
                    m' = replicate (f + 1 - length m) (CHR ''0'') @ m
                in if f = 0 then s @ m
                   else s @ take (length m' - f) m' @ ''.'' @ drop (length m' - f) m'))"

section \<open>The swap form of \<^verbatim>\<open>App.jsx\<close>\<close>

subsection \<open>Tokens and constants\<close>

text \<open>
  A token of \<^verbatim>\<open>TOKENS\<close>. Its \<^verbatim>\<open>name\<close> and \<^verbatim>\<open>iconUrl\<close> are functions of the symbol and
  are left out. \<^verbatim>\<open>priceUsd\<close> is \<^verbatim>\<open>item.price\<close> of the JSON data: a finite number, or
  \<open>None\<close> for an entry without a price (\<^verbatim>\<open>undefined\<close>). The list \<^verbatim>\<open>TOKENS\<close> itself comes
  from \<^verbatim>\<open>rawTokenData.json\<close> and is a parameter \<open>T\<close> of everything below. It holds one
  object per symbol, so two tokens with equal fields are the same object.
\<close>

record token =
  symbol :: string
  priceUsd :: "rat option"

definition SLIPPAGE_RATE :: jsnum where
  "SLIPPAGE_RATE = binary64 (3 / 1000)"

definition MAX_BALANCE :: jsnum where
  "MAX_BALANCE = Num 1000"

subsection \<open>Cleaning and validating an amount\<close>

definition strip_non_numeric :: "string \<Rightarrow> string" where
  "strip_non_numeric v = filter (\<lambda>c. is_digit c \<or> c = CHR ''.'') v"

text \<open>\<^verbatim>\<open>String.prototype.split\<close> with a separator of one character.\<close>

fun split_on :: "char \<Rightarrow> string \<Rightarrow> string list" where
  "split_on sep [] = [[]]"
| "split_on sep (c # cs) =
     (if c = sep then [] # split_on sep cs
      else (case split_on sep cs of [] \<Rightarrow> [[c]] | p # ps \<Rightarrow> (c # p) # ps))"

text \<open>Lines 39 to 43 and 261 to 265: the same cleaning in the schema and in the change handler.\<close>

definition cleanValue :: "string \<Rightarrow> string" where
  "cleanValue val =
     (let cleaned = strip_non_numeric val; parts = split_on (CHR ''.'') cleaned
      in if 2 < length parts then parts ! 0 @ ''.'' @ concat (drop 1 parts) else cleaned)"

definition trim :: "string \<Rightarrow> string" where
  "trim s = rev (dropWhile is_space (rev (dropWhile is_space s)))"

text \<open>
  The messages of the schema: \<open>EmptyAmount\<close> is ``Please enter an amount to swap.'',
  \<open>NotANumber\<close> is ``Amount must be a valid number.'', \<open>NonPositive\<close> is ``Amount must be
  greater than zero.'' and \<open>ExceedsBalance\<close> is ``Amount must not exceed the balance of
  \<dots>''.
\<close>

datatype issue = EmptyAmount | NotANumber | NonPositive | ExceedsBalance

text \<open>
  The checks of \<^verbatim>\<open>createSwapSchema\<close> on \<^verbatim>\<open>fromAmount\<close>, in the order of the chain:
  \<^verbatim>\<open>nonempty\<close> on the raw text, the transform, the piped \<^verbatim>\<open>trim\<close> refinement, and
  the three refinements on the parsed value. A failed check adds an issue and the chain
  goes on; the transform and the piped check are skipped once an issue stands.
\<close>

definition schema_issues :: "jsnum \<Rightarrow> string \<Rightarrow> issue list \<times> string" where
  "schema_issues maxBalance raw =
     (let i1 = (if raw = [] then [EmptyAmount] else []);
          val = (if i1 = [] then cleanValue raw else raw);
          i2 = (if i1 = [] \<and> trim val = [] then [EmptyAmount] else []);
          i3 = (if \<not> isNaN (parseFloat val) then [] else [NotANumber]);
          i4 = (if js_lt (Num 0) (parseFloat val) then [] else [NonPositive]);
          i5 = (if js_le (parseFloat val) maxBalance then [] else [ExceedsBalance])
      in (i1 @ i2 @ i3 @ i4 @ i5, val))"

text \<open>
  The resolver of the form reports, for a field, the first issue raised; without an issue
  the parsed data is the cleaned text.
\<close>

definition createSwapSchema :: "jsnum \<Rightarrow> string \<Rightarrow> string \<Rightarrow> issue + string" where
  "createSwapSchema maxBalance fromSymbol raw =
     (case schema_issues maxBalance raw of
        ([], val) \<Rightarrow> Inr val
      | (i # _, _) \<Rightarrow> Inl i)"

subsection \<open>Rate and conversion\<close>

text \<open>Lines 104 to 109. A price is falsy when it is \<^verbatim>\<open>undefined\<close> or zero.\<close>

definition exchangeRate :: "token \<Rightarrow> token \<Rightarrow> jsnum" where
  "exchangeRate fromToken toToken =
     (case (priceUsd fromToken, priceUsd toToken) of
        (Some pf, Some pt) \<Rightarrow>
          if pf \<noteq> 0 \<and> pt \<noteq> 0 \<and> js_lt (Num 0) (Num pt) then js_div (Num pf) (Num pt) else Num 0
      | _ \<Rightarrow> Num 0)"

definition adjustedRate :: "jsnum \<Rightarrow> jsnum" where
  "adjustedRate rate = js_mul rate (js_sub (Num 1) SLIPPAGE_RATE)"

text \<open>Lines 112 to 122. Both call sites pass a number as \<^verbatim>\<open>amount\<close>.\<close>

definition calculateAmount :: "jsnum \<Rightarrow> jsnum \<Rightarrow> bool \<Rightarrow> jsnum" where
  "calculateAmount amount rate isReverse =
     (let numAmount = parseFloat_number amount
      in if isNaN numAmount \<or> js_le numAmount (Num 0) \<or> js_le rate (Num 0) then Num 0
         else if isReverse then js_div numAmount (adjustedRate rate)
         else js_mul numAmount (adjustedRate rate))"

subsection \<open>State\<close>

datatype field = From | To

text \<open>
  The state of the component between two events: the five \<^verbatim>\<open>useState\<close> cells, the two
  values of the form (what \<^verbatim>\<open>watch\<close> returns) and \<^verbatim>\<open>errors.fromAmount\<close>. \<open>syncDeps\<close> and
  \<open>tokenDeps\<close> are the dependency values the two effects saw at the last render
  (\<open>None\<close> before the first); \<open>settlements\<close> are the pending callbacks of
  \<^verbatim>\<open>setTimeout\<close> in \<^verbatim>\<open>onSubmit\<close>, each with the \<^verbatim>\<open>watchedToAmount\<close> and the symbol of
  \<^verbatim>\<open>toToken\<close> its closure captured; \<open>dismissals\<close> counts the pending timers of
  \<^verbatim>\<open>alertSuccess\<close>.
\<close>

record app =
  fromToken :: token
  toToken :: token
  isSwapping :: bool
  lastUpdatedField :: "field option"
  successMessage :: string
  fromAmount :: string
  toAmount :: string
  fromAmountError :: "issue option"
  syncDeps :: "(string \<times> string \<times> jsnum \<times> field option) option"
  tokenDeps :: "(token \<times> token) option"
  settlements :: "(string \<times> string) list"
  dismissals :: nat

definition rate_of :: "app \<Rightarrow> jsnum" where
  "rate_of s = exchangeRate (fromToken s) (toToken s)"

subsection \<open>Effects\<close>

text \<open>
  An effect reads the values of the render it belongs to (the snapshot \<open>r\<close>) and writes
  to the current state \<open>s\<close>. Lines 124 to 164:
\<close>

definition syncEffect :: "app \<Rightarrow> app \<Rightarrow> app" where
  "syncEffect r s =
     (if js_le (rate_of r) (Num 0) then s\<lparr>toAmount := [], fromAmount := []\<rparr>
      else
        case lastUpdatedField r of
          Some From \<Rightarrow>
            (let inputAmount = parseFloat (fromAmount r)
             in if isNaN inputAmount \<or> js_le inputAmount (Num 0) then s\<lparr>toAmount := []\<rparr>
                else s\<lparr>toAmount := toFixed 8 (calculateAmount inputAmount (rate_of r) False)\<rparr>)
        | Some To \<Rightarrow>
            (let outputAmount = parseFloat (toAmount r)
             in if isNaN outputAmount \<or> js_le outputAmount (Num 0) then s\<lparr>fromAmount := []\<rparr>
                else s\<lparr>fromAmount := toFixed 8 (calculateAmount outputAmount (rate_of r) True),
                       fromAmountError := None\<rparr>)
        | None \<Rightarrow> s)"

text \<open>Lines 176 to 188:\<close>

definition tokenEffect :: "token list \<Rightarrow> app \<Rightarrow> app \<Rightarrow> app" where
  "tokenEffect T r s =
     (let s1 = (if symbol (fromToken r) = symbol (toToken r) then
                  (case find (\<lambda>t. symbol t \<noteq> symbol (fromToken r)) T of
                     Some newToToken \<Rightarrow> s\<lparr>toToken := newToToken\<rparr>
                   | None \<Rightarrow> s)
                else s)
      in s1\<lparr>fromAmount := [], toAmount := [], fromAmountError := None, lastUpdatedField := None\<rparr>)"

definition sync_deps :: "app \<Rightarrow> string \<times> string \<times> jsnum \<times> field option" where
  "sync_deps s = (fromAmount s, toAmount s, rate_of s, lastUpdatedField s)"

definition token_deps :: "app \<Rightarrow> token \<times> token" where
  "token_deps s = (fromToken s, toToken s)"

text \<open>
  One render and commit: each effect whose dependencies differ from those of the last
  render runs, in the order of the source, on the values of this render; then this
  render's dependencies are the remembered ones.
\<close>

definition commit :: "token list \<Rightarrow> app \<Rightarrow> app" where
  "commit T r =
     (let s1 = (if syncDeps r = Some (sync_deps r) then r else syncEffect r r);
          s2 = (if tokenDeps r = Some (token_deps r) then s1 else tokenEffect T r s1)
      in s2\<lparr>syncDeps := Some (sync_deps r), tokenDeps := Some (token_deps r)\<rparr>)"

text \<open>The component renders again for as long as a render changes something.\<close>

partial_function (option) settle :: "token list \<Rightarrow> app \<Rightarrow> app option" where
  "settle T s = (let s' = commit T s in if s' = s then Some s else settle T s')"

declare settle.simps [code]

subsection \<open>Handlers\<close>

text \<open>
  Lines 260 to 271. \<^verbatim>\<open>setValue\<close> validates the form when the field is \<^verbatim>\<open>fromAmount\<close>,
  which sets or clears \<^verbatim>\<open>errors.fromAmount\<close>.
\<close>

definition handleInputChange :: "string \<Rightarrow> field \<Rightarrow> app \<Rightarrow> app" where
  "handleInputChange v fieldName s =
     (let cleaned = cleanValue v
      in case fieldName of
           From \<Rightarrow>
             s\<lparr>fromAmount := cleaned,
               fromAmountError :=
                 (case createSwapSchema MAX_BALANCE (symbol (fromToken s)) cleaned of
                    Inl i \<Rightarrow> Some i
                  | Inr _ \<Rightarrow> None),
               lastUpdatedField := Some From\<rparr>
         | To \<Rightarrow> s\<lparr>toAmount := cleaned, lastUpdatedField := Some To\<rparr>)"

definition handleSetFromToken :: "token \<Rightarrow> app \<Rightarrow> app" where
  "handleSetFromToken t s = s\<lparr>fromToken := t\<rparr>"

definition handleSetToToken :: "token \<Rightarrow> app \<Rightarrow> app" where
  "handleSetToToken t s = s\<lparr>toToken := t\<rparr>"

text \<open>Lines 200 to 212:\<close>

definition handleSwapTokens :: "app \<Rightarrow> app" where
  "handleSwapTokens s =
     s\<lparr>fromToken := toToken s, toToken := fromToken s,
       fromAmount := toAmount s, toAmount := fromAmount s,
       lastUpdatedField := Some From, fromAmountError := None\<rparr>"

text \<open>Lines 220 to 243, up to the timer: \<open>data\<close> is the parsed form.\<close>

definition onSubmit :: "string \<Rightarrow> app \<Rightarrow> app" where
  "onSubmit data s =
     (if symbol (fromToken s) = symbol (toToken s) then s
      else if js_le (rate_of s) (Num 0) then s
      else s\<lparr>isSwapping := True,
             settlements := settlements s @ [(toAmount s, symbol (toToken s))]\<rparr>)"

text \<open>\<^verbatim>\<open>handleSubmit(onSubmit)\<close>: the resolver runs; \<^verbatim>\<open>onSubmit\<close> is called when it raises nothing.\<close>

definition handleSubmit :: "app \<Rightarrow> app" where
  "handleSubmit s =
     (case createSwapSchema MAX_BALANCE (symbol (fromToken s)) (fromAmount s) of
        Inl i \<Rightarrow> s\<lparr>fromAmountError := Some i\<rparr>
      | Inr data \<Rightarrow> onSubmit data (s\<lparr>fromAmountError := None\<rparr>))"

text \<open>Lines 244 to 256 with \<^verbatim>\<open>alertSuccess\<close>: the callback of a pending settlement.\<close>

definition settlementDone :: "string \<times> string \<Rightarrow> app \<Rightarrow> app" where
  "settlementDone c s =
     s\<lparr>isSwapping := False,
       successMessage :=
         ''Swap successful! You received '' @ toFixed 4 (parseFloat (fst c)) @ '' '' @ snd c,
       dismissals := Suc (dismissals s),
       fromAmount := [], toAmount := [], lastUpdatedField := None, fromAmountError := None\<rparr>"

text \<open>Lines 273 to 276 and 410 to 416:\<close>

definition rateError :: "app \<Rightarrow> bool" where
  "rateError s = js_le (rate_of s) (Num 0)"

definition submitDisabled :: "app \<Rightarrow> bool" where
  "submitDisabled s =
     (isSwapping s \<or> fromAmount s = [] \<or> js_le (parseFloat (fromAmount s)) (Num 0) \<or>
      (rateError s \<or> fromAmountError s \<noteq> None) \<or> rateError s)"

subsection \<open>Events\<close>

datatype event =
    InputChange field string
  | SetFromToken token
  | SetToToken token
  | SwapTokens
  | Submit
  | SettlementTimeout
  | SuccessTimeout

text \<open>
  What an event does before the next render. A disabled control emits no event: the
  ``to'' input while \<^verbatim>\<open>isSwapping\<close> (line 357), the submit button under \<open>submitDisabled\<close>.
  A timer event without a pending timer does not happen.
\<close>

definition handle :: "event \<Rightarrow> app \<Rightarrow> app" where
  "handle e s =
     (case e of
        InputChange From v \<Rightarrow> handleInputChange v From s
      | InputChange To v \<Rightarrow> if isSwapping s then s else handleInputChange v To s
      | SetFromToken t \<Rightarrow> handleSetFromToken t s
      | SetToToken t \<Rightarrow> handleSetToToken t s
      | SwapTokens \<Rightarrow> handleSwapTokens s
      | Submit \<Rightarrow> if submitDisabled s then s else handleSubmit s
      | SettlementTimeout \<Rightarrow>
          (case settlements s of
             [] \<Rightarrow> s
           | c # cs \<Rightarrow> settlementDone c (s\<lparr>settlements := cs\<rparr>))
      | SuccessTimeout \<Rightarrow>
          (if dismissals s = 0 then s
           else s\<lparr>successMessage := [], dismissals := dismissals s - 1\<rparr>))"

definition step :: "token list \<Rightarrow> event \<Rightarrow> app \<Rightarrow> app option" where
  "step T e s = settle T (handle e s)"

text \<open>
  Lines 64 to 72 and 91 to 94: the first state. \<open>None\<close> when a default token is
  \<^verbatim>\<open>undefined\<close>, where the first render throws on \<^verbatim>\<open>fromToken.symbol\<close>.
\<close>

definition or_else :: "'a option \<Rightarrow> 'a option \<Rightarrow> 'a option" where
  "or_else a b = (case a of Some x \<Rightarrow> Some x | None \<Rightarrow> b)"

definition at_index :: "'a list \<Rightarrow> nat \<Rightarrow> 'a option" where
  "at_index xs i = (if i < length xs then Some (xs ! i) else None)"

definition initialState :: "token list \<Rightarrow> app option" where
  "initialState T =
     (case (or_else (find (\<lambda>t. symbol t = ''ETH'') T) (at_index T 0),
            or_else (find (\<lambda>t. symbol t = ''USDC'') T) (at_index T 1)) of
        (Some defaultFromToken, Some defaultToToken) \<Rightarrow>
          Some \<lparr>fromToken = defaultFromToken, toToken = defaultToToken, isSwapping = False,
                lastUpdatedField = None, successMessage = [], fromAmount = [], toAmount = [],
                fromAmountError = None, syncDeps = None, tokenDeps = None,
                settlements = [], dismissals = 0\<rparr>
      | _ \<Rightarrow> None)"

definition mount :: "token list \<Rightarrow> app option" where
  "mount T = (case initialState T of None \<Rightarrow> None | Some s \<Rightarrow> settle T s)"

inductive reachable :: "token list \<Rightarrow> app \<Rightarrow> bool" for T :: "token list" where
  reachable_mount: "mount T = Some s \<Longrightarrow> reachable T s"
| reachable_step: "reachable T s \<Longrightarrow> step T e s = Some s' \<Longrightarrow> reachable T s'"

section \<open>Properties and examples\<close>

text \<open>The symbols of the pair differ.\<close>

definition distinct_pair :: "app \<Rightarrow> bool" where
  "distinct_pair s = (symbol (fromToken s) \<noteq> symbol (toToken s))"

text \<open>The token list offers at least two symbols.\<close>

definition two_symbols :: "token list \<Rightarrow> bool" where
  "two_symbols T = (\<exists>a \<in> set T. \<exists>b \<in> set T. symbol a \<noteq> symbol b)"

text \<open>The tokens of the scenario of the specification, and one without a usable price.\<close>

definition token_A :: token where
  "token_A = \<lparr>symbol = ''A'', priceUsd = Some 2000\<rparr>"

definition token_B :: token where
  "token_B = \<lparr>symbol = ''B'', priceUsd = Some 1\<rparr>"

definition token_Z :: token where
  "token_Z = \<lparr>symbol = ''Z'', priceUsd = Some 0\<rparr>"

text \<open>
  A state at rest with nothing in flight: the pair, the driving field and the two
  texts; the remembered dependencies are those of the state itself.
\<close>

definition form :: "token \<Rightarrow> token \<Rightarrow> field option \<Rightarrow> string \<Rightarrow> string \<Rightarrow> issue option \<Rightarrow> app" where
  "form f t lu fa ta err =
     \<lparr>fromToken = f, toToken = t, isSwapping = False, lastUpdatedField = lu,
      successMessage = [], fromAmount = fa, toAmount = ta, fromAmountError = err,
      syncDeps = Some (fa, ta, exchangeRate f t, lu), tokenDeps = Some (f, t),
      settlements = [], dismissals = 0\<rparr>"

text \<open>Without a rate both amounts are blank.\<close>

definition blank_without_rate :: "app \<Rightarrow> bool" where
  "blank_without_rate s = (js_le (rate_of s) (Num 0) \<longrightarrow> fromAmount s = [] \<and> toAmount s = [])"

text \<open>The form of the scenario after its submission was accepted.\<close>

definition in_flight_AB :: app where
  "in_flight_AB =
     (form token_A token_B (Some From) ''10'' ''19940.00000000'' None)
       \<lparr>isSwapping := True, settlements := [(''19940.00000000'', ''B'')]\<rparr>"






section \<open>Settling\<close>

lemma find_holds: "find P xs = Some x \<Longrightarrow> P x"
  by (induction xs) (auto split: if_splits)

lemma syncEffect_snapshot_deps [simp]:
  "syncEffect (r\<lparr>syncDeps := a, tokenDeps := b\<rparr>) s = syncEffect r s"
  by (simp add: syncEffect_def rate_of_def Let_def split: option.splits field.splits)

lemma syncEffect_state_deps [simp]:
  "syncEffect r (s\<lparr>syncDeps := a, tokenDeps := b\<rparr>) = (syncEffect r s)\<lparr>syncDeps := a, tokenDeps := b\<rparr>"
  by (simp add: syncEffect_def Let_def split: option.splits field.splits)

lemma syncEffect_idem: "syncEffect (syncEffect r r) (syncEffect r r) = syncEffect r r"
  by (simp add: syncEffect_def rate_of_def Let_def split: option.splits field.splits)

lemma syncEffect_blank:
  "fromAmount x = [] \<Longrightarrow> toAmount x = [] \<Longrightarrow> lastUpdatedField x = None \<Longrightarrow> syncEffect x x = x"
  by (simp add: syncEffect_def)

lemma tokenEffect_fields [simp]:
  "fromAmount (tokenEffect T r s) = []"
  "toAmount (tokenEffect T r s) = []"
  "lastUpdatedField (tokenEffect T r s) = None"
  "fromAmountError (tokenEffect T r s) = None"
  "fromToken (tokenEffect T r s) = fromToken s"
  "syncDeps (tokenEffect T r s) = syncDeps s"
  "tokenDeps (tokenEffect T r s) = tokenDeps s"
  "isSwapping (tokenEffect T r s) = isSwapping s"
  "successMessage (tokenEffect T r s) = successMessage s"
  "settlements (tokenEffect T r s) = settlements s"
  "dismissals (tokenEffect T r s) = dismissals s"
  by (simp_all add: tokenEffect_def Let_def split: option.splits)

lemma syncEffect_fields [simp]:
  "fromToken (syncEffect r s) = fromToken s"
  "toToken (syncEffect r s) = toToken s"
  "lastUpdatedField (syncEffect r s) = lastUpdatedField s"
  "syncDeps (syncEffect r s) = syncDeps s"
  "tokenDeps (syncEffect r s) = tokenDeps s"
  "isSwapping (syncEffect r s) = isSwapping s"
  "successMessage (syncEffect r s) = successMessage s"
  "settlements (syncEffect r s) = settlements s"
  "dismissals (syncEffect r s) = dismissals s"
  by (simp_all add: syncEffect_def Let_def split: option.splits field.splits)

lemma tokenEffect_settled:
  assumes "fromAmount x = []" "toAmount x = []" "lastUpdatedField x = None" "fromAmountError x = None"
    and "symbol (fromToken x) \<noteq> symbol (toToken x)"
  shows "tokenEffect T x x = x"
  using assms by (simp add: tokenEffect_def)

lemma toToken_tokenEffect:
  "toToken (tokenEffect T r s) \<noteq> toToken s \<Longrightarrow> fromToken s = fromToken r \<Longrightarrow>
     symbol (toToken (tokenEffect T r s)) \<noteq> symbol (fromToken (tokenEffect T r s))"
  by (auto simp: tokenEffect_def Let_def split: option.splits if_splits dest: find_holds)

lemma commit_commit:
  "commit T (commit T s) =
     (commit T s)\<lparr>syncDeps := Some (sync_deps (commit T s)), tokenDeps := Some (token_deps (commit T s))\<rparr>"
proof -
  let ?c = "commit T s"
  have deps: "syncDeps ?c = Some (sync_deps s)" "tokenDeps ?c = Some (token_deps s)"
    by (simp_all add: commit_def Let_def)
  have i: "syncEffect ?c ?c = ?c" if "sync_deps ?c \<noteq> sync_deps s"
  proof (cases "tokenDeps s = Some (token_deps s)")
    case False
    then have "fromAmount ?c = []" "toAmount ?c = []" "lastUpdatedField ?c = None"
      by (simp_all add: commit_def Let_def)
    then show ?thesis by (rule syncEffect_blank)
  next
    case True
    show ?thesis
    proof (cases "syncDeps s = Some (sync_deps s)")
      case True
      with \<open>tokenDeps s = Some (token_deps s)\<close> that show ?thesis
        by (simp add: commit_def Let_def sync_deps_def rate_of_def)
    next
      case False
      with \<open>tokenDeps s = Some (token_deps s)\<close>
      have "?c = (syncEffect s s)\<lparr>syncDeps := Some (sync_deps s), tokenDeps := Some (token_deps s)\<rparr>"
        by (simp add: commit_def Let_def)
      then show ?thesis by (simp add: syncEffect_idem)
    qed
  qed
  have ii: "tokenEffect T ?c ?c = ?c" if "token_deps ?c \<noteq> token_deps s"
  proof -
    from that have run: "tokenDeps s \<noteq> Some (token_deps s)"
      by (auto simp: commit_def Let_def token_deps_def)
    then have blank: "fromAmount ?c = []" "toAmount ?c = []" "lastUpdatedField ?c = None"
        "fromAmountError ?c = None"
      by (simp_all add: commit_def Let_def)
    from run that have "symbol (fromToken ?c) \<noteq> symbol (toToken ?c)"
      by (auto simp: commit_def Let_def token_deps_def tokenEffect_def split: option.splits if_splits dest: find_holds)
    with blank show ?thesis by (intro tokenEffect_settled)
  qed
  show ?thesis
    using i ii deps by (subst commit_def) (auto simp: Let_def)
qed

lemma commit_fixed:
  "commit T (commit T (commit T s)) = commit T (commit T s)"
  by (subst commit_commit[of T "commit T s"]) (simp add: commit_commit sync_deps_def token_deps_def rate_of_def)

lemma settle_eq: "settle T s = Some (commit T (commit T s))"
proof -
  have fixp: "settle T x = Some x" if "commit T x = x" for x
    using that by (subst settle.simps) simp
  show ?thesis
  proof (cases "commit T s = s")
    case True
    then show ?thesis by (simp add: fixp)
  next
    case False
    then have "settle T s = settle T (commit T s)"
      by (subst settle.simps) simp
    also have "\<dots> = Some (commit T (commit T s))"
    proof (cases "commit T (commit T s) = commit T s")
      case True
      then show ?thesis by (simp add: fixp)
    next
      case False
      then have "settle T (commit T s) = settle T (commit T (commit T s))"
        by (subst settle.simps) simp
      then show ?thesis by (simp add: fixp commit_fixed)
    qed
    finally show ?thesis .
  qed
qed


lemma step_eq: "step T e s = Some (commit T (commit T (handle e s)))"
  by (simp add: step_def settle_eq)

lemma settle_settled: "settle T x = Some s \<Longrightarrow> commit T s = s"
  by (auto simp: settle_eq commit_fixed)

lemma reachable_settled: "reachable T s \<Longrightarrow> commit T s = s"
  by (induction rule: reachable.induct)
     (auto simp: mount_def step_def split: option.splits dest: settle_settled)

lemma settled_deps:
  assumes "commit T s = s"
  shows "syncDeps s = Some (sync_deps s)" and "tokenDeps s = Some (token_deps s)"
proof -
  have "syncDeps (commit T s) = Some (sync_deps s)" "tokenDeps (commit T s) = Some (token_deps s)"
    by (simp_all add: commit_def Let_def)
  with assms show "syncDeps s = Some (sync_deps s)" and "tokenDeps s = Some (token_deps s)"
    by simp_all
qed

lemma handle_deps [simp]:
  "syncDeps (handle e s) = syncDeps s" "tokenDeps (handle e s) = tokenDeps s"
  by (auto simp: handle_def handleInputChange_def handleSetFromToken_def handleSetToToken_def
      handleSwapTokens_def handleSubmit_def onSubmit_def settlementDone_def Let_def
      split: event.splits field.splits sum.splits list.splits)

lemma find_other:
  assumes "two_symbols T"
  shows "\<exists>t. find (\<lambda>t. symbol t \<noteq> x) T = Some t"
proof -
  from assms obtain a b where "a \<in> set T" "b \<in> set T" "symbol a \<noteq> symbol b"
    by (auto simp: two_symbols_def)
  then have "\<exists>t \<in> set T. symbol t \<noteq> x" by metis
  then have "find (\<lambda>t. symbol t \<noteq> x) T \<noteq> None"
    by (auto simp: find_None_iff)
  then show ?thesis by auto
qed

lemma commit_distinct:
  assumes "two_symbols T" and "tokenDeps x = Some (token_deps x) \<Longrightarrow> distinct_pair x"
  shows "distinct_pair (commit T x)"
proof (cases "tokenDeps x = Some (token_deps x)")
  case True
  with assms(2) show ?thesis
    by (simp add: commit_def Let_def distinct_pair_def)
next
  case False
  obtain t where t: "find (\<lambda>t. symbol t \<noteq> symbol (fromToken x)) T = Some t"
    using find_other[OF assms(1)] by blast
  then have "symbol t \<noteq> symbol (fromToken x)" by (rule find_holds)
  with False t show ?thesis
    by (auto simp: commit_def Let_def distinct_pair_def tokenEffect_def)
qed

lemma commit2_distinct:
  assumes "two_symbols T" and "tokenDeps x = Some (token_deps x) \<Longrightarrow> distinct_pair x"
  shows "distinct_pair (commit T (commit T x))"
proof -
  have "distinct_pair (commit T x)" using assms by (rule commit_distinct)
  then show ?thesis
    by (subst commit_commit) (simp add: distinct_pair_def)
qed

lemma handle_distinct:
  assumes "tokenDeps s = Some (token_deps s)" "distinct_pair s"
    and "tokenDeps (handle e s) = Some (token_deps (handle e s))"
  shows "distinct_pair (handle e s)"
proof -
  from assms(1,3) have "token_deps (handle e s) = token_deps s" by simp
  with assms(2) show ?thesis by (simp add: token_deps_def distinct_pair_def)
qed

lemma reachable_distinct:
  assumes "two_symbols T" "reachable T s"
  shows "distinct_pair s"
  using assms(2)
proof (induction rule: reachable.induct)
  case (reachable_mount s)
  then obtain x where x: "initialState T = Some x" and s: "s = commit T (commit T x)"
    by (auto simp: mount_def settle_eq split: option.splits)
  from x have "tokenDeps x = None"
    by (auto simp: initialState_def split: option.splits prod.splits)
  then show ?case unfolding s by (intro commit2_distinct assms(1)) simp
next
  case (reachable_step s e s')
  then have s': "s' = commit T (commit T (handle e s))" by (simp add: step_eq)
  have "tokenDeps s = Some (token_deps s)"
    using reachable_settled[OF reachable_step.hyps(1)] by (rule settled_deps)
  then show ?case unfolding s'
    using reachable_step.IH by (intro commit2_distinct assms(1) handle_distinct)
qed


section \<open>Evaluation\<close>

lemma binary64_not_NaN [simp]: "binary64 x \<noteq> NaN"
  by (simp add: binary64_def Let_def)

lemma binary64_0 [simp]: "binary64 0 = Num 0"
  by (simp add: binary64_def)

lemma rate_AB: "exchangeRate token_A token_B = Num 2000"
  by code_simp

lemma adjusted_2000: "adjustedRate (Num 2000) = Num 1994"
  by code_simp

lemma parse_10: "parseFloat ''10'' = Num 10"
  by code_simp

lemma parse_19940: "parseFloat ''19940'' = Num 19940"
  by code_simp

lemma forward_10: "calculateAmount (Num 10) (Num 2000) False = Num 19940"
  by code_simp

lemma reverse_19940: "calculateAmount (Num 19940) (Num 2000) True = Num 10"
  by code_simp

lemma fixed_19940: "toFixed 8 (Num 19940) = ''19940.00000000''"
  by code_simp

lemma fixed_10: "toFixed 8 (Num 10) = ''10.00000000''"
  by code_simp

lemma clean_10: "cleanValue ''10'' = ''10''"
  by code_simp

lemma clean_19940: "cleanValue ''19940'' = ''19940''"
  by code_simp

lemma valid_10: "createSwapSchema MAX_BALANCE fs ''10'' = Inr ''10''"
  by code_simp

lemmas eval_defs = step_eq handle_def handleInputChange_def commit_def syncEffect_def tokenEffect_def
  sync_deps_def token_deps_def rate_of_def form_def Let_def isNaN_def

lemma token_fields [simp]:
  "symbol token_A = ''A''" "symbol token_B = ''B''" "symbol token_Z = ''Z''"
  "priceUsd token_A = Some 2000" "priceUsd token_B = Some 1" "priceUsd token_Z = Some 0"
  by (simp_all add: token_A_def token_B_def token_Z_def)

lemma mount_AB: "mount [token_A, token_B] = Some (form token_A token_B None [] [] None)"
  by (simp add: mount_def initialState_def or_else_def at_index_def settle_eq eval_defs rate_AB)

lemma type_10:
  "step [token_A, token_B] (InputChange From ''10'') (form token_A token_B None [] [] None) =
     Some (form token_A token_B (Some From) ''10'' ''19940.00000000'' None)"
  by (simp add: eval_defs rate_AB clean_10 valid_10 parse_10 forward_10 fixed_19940)

lemma type_19940:
  "step [token_A, token_B] (InputChange To ''19940'') (form token_A token_B (Some From) ''10'' ''19940.00000000'' None) =
     Some (form token_A token_B (Some To) ''10.00000000'' ''19940'' None)"
  by (simp add: eval_defs rate_AB clean_19940 parse_19940 reverse_19940 fixed_10)


section \<open>Invariants of the reachable states\<close>

lemma commit_blank:
  assumes "syncDeps x = Some (sync_deps x) \<Longrightarrow> blank_without_rate x"
  shows "blank_without_rate (commit T x)"
proof (cases "tokenDeps x = Some (token_deps x)")
  case False
  then show ?thesis by (simp add: commit_def Let_def blank_without_rate_def)
next
  case True
  show ?thesis
  proof (cases "syncDeps x = Some (sync_deps x)")
    case True
    with assms \<open>tokenDeps x = Some (token_deps x)\<close> show ?thesis
      by (simp add: commit_def Let_def blank_without_rate_def rate_of_def)
  next
    case False
    with \<open>tokenDeps x = Some (token_deps x)\<close> show ?thesis
      by (simp add: commit_def Let_def blank_without_rate_def rate_of_def syncEffect_def
          split: option.splits field.splits)
  qed
qed

lemma commit2_blank:
  assumes "syncDeps x = Some (sync_deps x) \<Longrightarrow> blank_without_rate x"
  shows "blank_without_rate (commit T (commit T x))"
proof -
  have "blank_without_rate (commit T x)" using assms by (rule commit_blank)
  then show ?thesis
    by (subst commit_commit) (simp add: blank_without_rate_def rate_of_def)
qed

lemma reachable_blank:
  assumes "reachable T s"
  shows "blank_without_rate s"
  using assms
proof (induction rule: reachable.induct)
  case (reachable_mount s)
  then obtain x where x: "initialState T = Some x" and s: "s = commit T (commit T x)"
    by (auto simp: mount_def settle_eq split: option.splits)
  from x have "syncDeps x = None"
    by (auto simp: initialState_def split: option.splits prod.splits)
  then show ?case unfolding s by (intro commit2_blank) simp
next
  case (reachable_step s e s')
  then have s': "s' = commit T (commit T (handle e s))" by (simp add: step_eq)
  have d: "syncDeps s = Some (sync_deps s)"
    using reachable_settled[OF reachable_step.hyps(1)] by (rule settled_deps)
  show ?case unfolding s'
  proof (intro commit2_blank)
    assume "syncDeps (handle e s) = Some (sync_deps (handle e s))"
    with d have "sync_deps (handle e s) = sync_deps s" by simp
    with reachable_step.IH show "blank_without_rate (handle e s)"
      by (simp add: blank_without_rate_def sync_deps_def)
  qed
qed

lemma settled_step_noop:
  assumes "commit T s = s" "handle e s = s"
  shows "step T e s = Some s"
  using assms by (simp add: step_eq)


section \<open>Example states\<close>

lemma rate_AZ: "exchangeRate token_A token_Z = Num 0"
  by (simp add: exchangeRate_def)

lemma handle_submit_10:
  "handle Submit (form token_A token_B (Some From) ''10'' ''19940.00000000'' None) = in_flight_AB"
  by (simp add: handle_def submitDisabled_def rateError_def rate_of_def form_def rate_AB parse_10
      handleSubmit_def valid_10 onSubmit_def in_flight_AB_def)

lemma commit_in_flight_AB: "commit T in_flight_AB = in_flight_AB"
  by (simp add: commit_def in_flight_AB_def form_def sync_deps_def token_deps_def rate_of_def Let_def)

lemma submit_10:
  "step [token_A, token_B] Submit (form token_A token_B (Some From) ''10'' ''19940.00000000'' None) =
     Some in_flight_AB"
  by (simp add: step_eq handle_submit_10 commit_in_flight_AB)

lemma mount_AZ: "mount [token_A, token_Z] = Some (form token_A token_Z None [] [] None)"
  by (simp add: mount_def initialState_def or_else_def at_index_def settle_eq eval_defs rate_AZ)

lemma type_10_AZ:
  "step [token_A, token_Z] (InputChange From ''10'') (form token_A token_Z None [] [] None) =
     Some (form token_A token_Z (Some From) [] [] None)"
  by (simp add: eval_defs rate_AZ clean_10 valid_10)

lemma reach_AB0: "reachable [token_A, token_B] (form token_A token_B None [] [] None)"
  by (rule reachable_mount [OF mount_AB])

lemma reach_AB1:
  "reachable [token_A, token_B] (form token_A token_B (Some From) ''10'' ''19940.00000000'' None)"
  by (rule reachable_step [OF reach_AB0 type_10])

lemma reach_AB2: "reachable [token_A, token_B] in_flight_AB"
  by (rule reachable_step [OF reach_AB1 submit_10])

lemma reach_AZ1: "reachable [token_A, token_Z] (form token_A token_Z (Some From) [] [] None)"
  by (rule reachable_step [OF reachable_mount [OF mount_AZ] type_10_AZ])

lemma two_symbols_AB: "two_symbols [token_A, token_B]"
  by (auto simp: two_symbols_def)

section \<open>The range of binary64\<close>






lemma rate_BA: "exchangeRate token_B token_A = Num (1152921504606847 / 2305843009213693952)"
  by code_simp

lemma parse_19940_fixed: "parseFloat ''19940.00000000'' = Num 19940"
  by code_simp

lemma handle_swap_10:
  "handle SwapTokens (form token_A token_B (Some From) ''10'' ''19940.00000000'' None) =
     (form token_A token_B (Some From) ''10'' ''19940.00000000'' None)
       \<lparr>fromToken := token_B, toToken := token_A, fromAmount := ''19940.00000000'',
        toAmount := ''10''\<rparr>"
  by (simp add: handle_def handleSwapTokens_def form_def)

lemma token_A_neq_B: "token_A \<noteq> token_B" "token_B \<noteq> token_A"
  by (simp_all add: token_A_def token_B_def)

lemma commit_swap_10:
  "commit [token_A, token_B]
     ((form token_A token_B (Some From) ''10'' ''19940.00000000'' None)
       \<lparr>fromToken := token_B, toToken := token_A, fromAmount := ''19940.00000000'',
        toAmount := ''10''\<rparr>) =
   (form token_B token_A None [] [] None)
     \<lparr>syncDeps := Some (''19940.00000000'', ''10'', exchangeRate token_B token_A, Some From)\<rparr>"
  by (simp add: commit_def Let_def form_def sync_deps_def token_deps_def rate_of_def
      tokenEffect_def syncEffect_def token_A_neq_B)

lemma commit_swap_10':
  "commit [token_A, token_B]
     ((form token_B token_A None [] [] None)
       \<lparr>syncDeps := Some (''19940.00000000'', ''10'', exchangeRate token_B token_A, Some From)\<rparr>) =
   form token_B token_A None [] [] None"
  by (simp add: commit_def Let_def form_def sync_deps_def token_deps_def rate_of_def
      syncEffect_def rate_BA)

lemma swap_10:
  "step [token_A, token_B] SwapTokens (form token_A token_B (Some From) ''10'' ''19940.00000000'' None) =
     Some (form token_B token_A None [] [] None)"
  by (simp only: step_eq handle_swap_10 commit_swap_10 commit_swap_10')

section \<open>Cleaning and validation\<close>


lemma split_on_nonempty [simp]: "split_on sep s \<noteq> []"
  by (induction s) (auto split: list.splits)




lemma cleanValue_Nil [simp]: "cleanValue [] = []"
  by (simp add: cleanValue_def strip_non_numeric_def)




























lemma parse_12_3456: "parseFloat ''12.3456'' = Num (6949954944958149 / 562949953421312)"
  by code_simp

section \<open>The claims\<close>

text \<open>
  C1. Let the token list offer two symbols. Every reachable state has
  \<open>fromAsset.symbol \<noteq> toAsset.symbol\<close>, and so has the state after any event from it
  (an edit of either amount, a selection of either asset, the swap of direction, a
  submission, the completion of a settlement). Selecting as ``to'' asset the current
  ``from'' asset ends in a state whose ``to'' asset is the first token of the list whose
  symbol differs from that of the ``from'' asset.
\<close>

theorem asset_pair_invariant:
  assumes "two_symbols T" and "reachable T s"
  shows "symbol (fromToken s) \<noteq> symbol (toToken s) \<and>
         (\<forall>e. \<exists>s'. step T e s = Some s' \<and> symbol (fromToken s') \<noteq> symbol (toToken s')) \<and>
         (\<exists>s'. step T (SetToToken (fromToken s)) s = Some s' \<and> fromToken s' = fromToken s \<and>
               find (\<lambda>t. symbol t \<noteq> symbol (fromToken s)) T = Some (toToken s'))"
proof -
  have d: "distinct_pair s" using assms by (rule reachable_distinct)
  have st: "distinct_pair s'" if "step T e s = Some s'" for e s'
    using reachable_distinct[OF assms(1) reachable_step[OF assms(2) that]] .
  have all: "\<exists>s'. step T e s = Some s' \<and> symbol (fromToken s') \<noteq> symbol (toToken s')" for e
    using st[of e] by (simp add: step_eq distinct_pair_def)
  let ?x = "handle (SetToToken (fromToken s)) s"
  have x: "?x = s\<lparr>toToken := fromToken s\<rparr>"
    by (simp add: handle_def handleSetToToken_def)
  have td: "tokenDeps s = Some (token_deps s)"
    using reachable_settled[OF assms(2)] by (rule settled_deps)
  from d have ne: "toToken s \<noteq> fromToken s" by (auto simp: distinct_pair_def)
  obtain t where t: "find (\<lambda>t. symbol t \<noteq> symbol (fromToken s)) T = Some t"
    using find_other[OF assms(1)] by blast
  from td ne t have c: "toToken (commit T ?x) = t" "fromToken (commit T ?x) = fromToken s"
    unfolding x by (simp_all add: commit_def Let_def token_deps_def tokenEffect_def)
  have "toToken (commit T (commit T ?x)) = t" "fromToken (commit T (commit T ?x)) = fromToken s"
    by (subst commit_commit, simp add: c)+
  with t have "\<exists>s'. step T (SetToToken (fromToken s)) s = Some s' \<and> fromToken s' = fromToken s \<and>
               find (\<lambda>t. symbol t \<noteq> symbol (fromToken s)) T = Some (toToken s')"
    by (simp add: step_eq)
  with d all show ?thesis by (simp add: distinct_pair_def)
qed

theorem asset_pair_invariant_witness:
  "two_symbols [token_A, token_B] \<and>
   reachable [token_A, token_B] (form token_A token_B None [] [] None) \<and>
   symbol token_A \<noteq> symbol token_B \<and>
   (\<exists>s'. step [token_A, token_B] (SetToToken token_A) (form token_A token_B None [] [] None) = Some s' \<and>
         fromToken s' = token_A \<and> toToken s' = token_B)"
proof -
  let ?s = "form token_A token_B None [] [] None"
  have f: "fromToken ?s = token_A" by (simp add: form_def)
  have fi: "find (\<lambda>t. symbol t \<noteq> symbol token_A) [token_A, token_B] = Some token_B" by simp
  from asset_pair_invariant [OF two_symbols_AB reach_AB0]
  obtain s' where "step [token_A, token_B] (SetToToken (fromToken ?s)) ?s = Some s'"
    "fromToken s' = fromToken ?s"
    "find (\<lambda>t. symbol t \<noteq> symbol (fromToken ?s)) [token_A, token_B] = Some (toToken s')"
    by blast
  then have "step [token_A, token_B] (SetToToken token_A) ?s = Some s' \<and>
      fromToken s' = token_A \<and> toToken s' = token_B"
    unfolding f using fi by simp
  then have "\<exists>s'. step [token_A, token_B] (SetToToken token_A) ?s = Some s' \<and>
      fromToken s' = token_A \<and> toToken s' = token_B" ..
  with two_symbols_AB reach_AB0 show ?thesis by simp
qed




text \<open>
  C4. On the form of the scenario (A to B, \<open>10\<close> typed, \<open>19940.00000000\<close> derived) the swap
  handler exchanges the two assets and the two texts and makes ``from'' the driving field.
  The exchange of the assets then runs the token effect, which blanks both amounts and
  resets the driving field: the state after the transition has the assets exchanged, both
  texts empty and no driving field, so nothing re-drives the ``to'' value.
\<close>

theorem swap_clears_amounts:
  "fromAmount (handleSwapTokens (form token_A token_B (Some From) ''10'' ''19940.00000000'' None)) =
     ''19940.00000000'' \<and>
   toAmount (handleSwapTokens (form token_A token_B (Some From) ''10'' ''19940.00000000'' None)) =
     ''10'' \<and>
   lastUpdatedField
     (handleSwapTokens (form token_A token_B (Some From) ''10'' ''19940.00000000'' None)) =
     Some From \<and>
   step [token_A, token_B] SwapTokens
     (form token_A token_B (Some From) ''10'' ''19940.00000000'' None) =
     Some (form token_B token_A None [] [] None)"
  by (simp add: swap_10) (simp add: handleSwapTokens_def form_def)

text \<open>
  C5. In every reachable state whose ``to'' asset has price \<open>0\<close>, both amount fields are
  blank, whichever field drives, the submit button is disabled and a submission changes
  nothing.
\<close>

theorem rate_unavailable_blank:
  assumes "reachable T s" and "priceUsd (toToken s) = Some 0"
  shows "fromAmount s = [] \<and> toAmount s = [] \<and> submitDisabled s \<and> step T Submit s = Some s"
proof -
  from assms(2) have r: "js_le (rate_of s) (Num 0)"
    by (simp add: rate_of_def exchangeRate_def split: option.splits)
  with reachable_blank[OF assms(1)] have b: "fromAmount s = []" "toAmount s = []"
    by (simp_all add: blank_without_rate_def)
  from r have d: "submitDisabled s" by (simp add: submitDisabled_def rateError_def)
  then have "handle Submit s = s" by (simp add: handle_def)
  with reachable_settled[OF assms(1)] have "step T Submit s = Some s"
    by (rule settled_step_noop)
  with b d show ?thesis by simp
qed

theorem rate_unavailable_blank_witness:
  "reachable [token_A, token_Z] (form token_A token_Z (Some From) [] [] None) \<and>
   priceUsd token_Z = Some 0 \<and>
   submitDisabled (form token_A token_Z (Some From) [] [] None) \<and>
   step [token_A, token_Z] Submit (form token_A token_Z (Some From) [] [] None) =
     Some (form token_A token_Z (Some From) [] [] None)"
  using rate_unavailable_blank [OF reach_AZ1] reach_AZ1
  by (simp add: form_def)




text \<open>
  C7. With A at 2000 and B at 1 the adjusted rate is 1994. Typing \<open>10\<close> into the ``from''
  field of the mounted form writes \<open>19940.00000000\<close> into the ``to'' field; editing the
  ``to'' field to \<open>19940\<close> then writes \<open>10.00000000\<close> into the ``from'' field. Derived
  texts carry eight fractional digits.
\<close>

theorem concrete_scenario:
  "adjustedRate (exchangeRate token_A token_B) = Num 1994 \<and>
   mount [token_A, token_B] = Some (form token_A token_B None [] [] None) \<and>
   step [token_A, token_B] (InputChange From ''10'') (form token_A token_B None [] [] None) =
     Some (form token_A token_B (Some From) ''10'' ''19940.00000000'' None) \<and>
   step [token_A, token_B] (InputChange To ''19940'')
       (form token_A token_B (Some From) ''10'' ''19940.00000000'' None) =
     Some (form token_A token_B (Some To) ''10.00000000'' ''19940'' None)"
  by (simp only: rate_AB adjusted_2000 mount_AB type_10 type_19940)

text \<open>
  C8. In every reachable state with \<open>isSwapping\<close> set, a submission leaves the whole
  state as it is, and so does any edit of the ``to'' field, whose input is disabled.
\<close>

theorem in_flight_exclusive:
  assumes "reachable T s" and "isSwapping s"
  shows "step T Submit s = Some s \<and> (\<forall>v. step T (InputChange To v) s = Some s)"
proof -
  from assms(2) have "handle Submit s = s" "\<And>v. handle (InputChange To v) s = s"
    by (simp_all add: handle_def submitDisabled_def)
  with reachable_settled[OF assms(1)] show ?thesis
    by (simp add: settled_step_noop)
qed

theorem in_flight_exclusive_witness:
  "reachable [token_A, token_B] in_flight_AB \<and> isSwapping in_flight_AB \<and>
   step [token_A, token_B] Submit in_flight_AB = Some in_flight_AB \<and>
   step [token_A, token_B] (InputChange To ''5'') in_flight_AB = Some in_flight_AB"
  using in_flight_exclusive [OF reach_AB2] reach_AB2
  by (simp add: in_flight_AB_def)

end
